theory Spec2Isabelle
  imports Complex_Main "HOL-Library.Sublist"
begin

section \<open>The delivery tracker: map component and page state\<close>

text \<open>
  The map component (\<open>MapComponent\<close>) keeps a map instance and four overlay references
  and runs three pieces of code on them: the initialization effect, the update effect and
  the cleanup of the initialization effect. Each is embedded as a function from the props
  and the component state to the outcome of the call: the new state, or a thrown error.
  The guards of the effects read the flags of the state they are run in.

  What the rendering framework keeps for the component is part of the state: the
  history captured by the memoised callback \<open>shouldRefitMap\<close>, and the dependencies the
  update effect had when it last ran. A render with new props first renews the callback
  when the length of the history has changed, and then runs the update effect when one
  of its dependencies has changed.

  A JavaScript \<open>number\<close> is embedded as a \<open>real\<close>: rounding of floating point numbers
  is not modelled.
\<close>

subsection \<open>Data of the component\<close>

record Location =
  lat :: real
  lng :: real

record CustomerLocation = Location +
  address :: string

record MapComponentProps =
  driverLocation :: Location
  customerLocation :: CustomerLocation
  locationHistory :: "Location list"

subsection \<open>The map library, as far as the component uses it\<close>

text \<open>
  The map library is not part of the repository. Its objects are embedded with the
  fields the component sets, and its operations with the behaviour its documentation
  gives them. A coordinate pair \<open>[lat, lng]\<close> is a pair of numbers.
\<close>

type_synonym LatLng = "real \<times> real"

definition latLngOf :: "'a Location_scheme \<Rightarrow> LatLng" where
  "latLngOf loc = (lat loc, lng loc)"

record LatLngBounds =
  southWest :: LatLng
  northEast :: LatLng

text \<open>
  Modelled from the spec: the library's \<open>LatLngBounds.contains\<close> is not in the
  repository; a point exactly on the bounds edge counts as contained.
\<close>

definition contains :: "LatLngBounds \<Rightarrow> LatLng \<Rightarrow> bool" where
  "contains b pt \<longleftrightarrow>
     fst (southWest b) \<le> fst pt \<and> fst pt \<le> fst (northEast b) \<and>
     snd (southWest b) \<le> snd pt \<and> snd pt \<le> snd (northEast b)"

text \<open>
  Modelled from the spec: the bounding region of a set of points, and its proportional
  padding (the box grows on each side by the given fraction of its span). The bounds of
  no point at all are not valid (\<open>None\<close>).
\<close>

definition extendBounds :: "LatLngBounds \<Rightarrow> LatLng \<Rightarrow> LatLngBounds" where
  "extendBounds b pt =
     \<lparr> southWest = (min (fst (southWest b)) (fst pt), min (snd (southWest b)) (snd pt)),
       northEast = (max (fst (northEast b)) (fst pt), max (snd (northEast b)) (snd pt)) \<rparr>"

definition latLngBounds :: "LatLng list \<Rightarrow> LatLngBounds option" where
  "latLngBounds pts =
     (case pts of
        [] \<Rightarrow> None
      | pt # rest \<Rightarrow> Some (foldl extendBounds \<lparr> southWest = pt, northEast = pt \<rparr> rest))"

definition pad :: "real \<Rightarrow> LatLngBounds \<Rightarrow> LatLngBounds" where
  "pad bufferRatio b =
     (let heightBuffer = \<bar>fst (southWest b) - fst (northEast b)\<bar> * bufferRatio;
          widthBuffer = \<bar>snd (southWest b) - snd (northEast b)\<bar> * bufferRatio
      in \<lparr> southWest = (fst (southWest b) - heightBuffer, snd (southWest b) - widthBuffer),
           northEast = (fst (northEast b) + heightBuffer, snd (northEast b) + widthBuffer) \<rparr>)"

text \<open>
  The viewport is moved by \<open>setView\<close> and \<open>fitBounds\<close>. What the map then shows is
  computed by the library; the map instance records the calls it received, oldest first.
  \<open>SetView center zoom options\<close> carries the options \<open>(animate, duration)\<close> when they
  are given; \<open>FitBounds bounds animate duration maxZoom padding\<close> carries all of them.
\<close>

datatype ViewCall =
    SetView LatLng real "(bool \<times> real) option"
  | FitBounds LatLngBounds bool real real "real \<times> real"

datatype Control = ZoomControl string | ScaleControl string

text \<open>
  Every layer object has an identity: the library stamps each object with the next
  number of a counter. A layer added to a map is recorded there by its stamp.
\<close>

record Marker =
  marker_id :: nat
  marker_latlng :: LatLng
  icon_className :: string
  zIndexOffset :: int
  popup :: "string option"

record Polyline =
  polyline_id :: nat
  latlngs :: "LatLng list"
  color :: string
  weight :: real
  opacity :: real

record LMap =
  zoomControl :: bool
  attributionControl :: bool
  viewCalls :: "ViewCall list"
  layers :: "nat list"
  controls :: "Control list"

datatype error = BoundsNotValid

definition L_map :: "bool \<Rightarrow> bool \<Rightarrow> LMap" where
  "L_map zc ac =
     \<lparr> zoomControl = zc, attributionControl = ac, viewCalls = [], layers = [], controls = [] \<rparr>"

definition setView :: "LatLng \<Rightarrow> real \<Rightarrow> (bool \<times> real) option \<Rightarrow> LMap \<Rightarrow> LMap" where
  "setView center z opts m = m\<lparr> viewCalls := viewCalls m @ [SetView center z opts] \<rparr>"

text \<open>\<open>fitBounds\<close> throws on bounds that are not valid.\<close>

definition fitBounds ::
  "LatLngBounds option \<Rightarrow> bool \<Rightarrow> real \<Rightarrow> real \<Rightarrow> real \<times> real \<Rightarrow> LMap \<Rightarrow> error + LMap" where
  "fitBounds bo anim dur mz pd m =
     (case bo of
        None \<Rightarrow> Inl BoundsNotValid
      | Some b \<Rightarrow> Inr (m\<lparr> viewCalls := viewCalls m @ [FitBounds b anim dur mz pd] \<rparr>))"

definition addLayer :: "nat \<Rightarrow> LMap \<Rightarrow> LMap" where
  "addLayer i m = m\<lparr> layers := layers m @ [i] \<rparr>"

definition addControl :: "Control \<Rightarrow> LMap \<Rightarrow> LMap" where
  "addControl c m = m\<lparr> controls := controls m @ [c] \<rparr>"

definition setLatLng :: "LatLng \<Rightarrow> Marker \<Rightarrow> Marker" where
  "setLatLng pt mk = mk\<lparr> marker_latlng := pt \<rparr>"

text \<open>\<open>getPopup()?.setContent(c)\<close>: the content changes when the marker has a popup.\<close>

definition setPopupContent :: "string \<Rightarrow> Marker \<Rightarrow> Marker" where
  "setPopupContent c mk = mk\<lparr> popup := map_option (\<lambda>_. c) (popup mk) \<rparr>"

definition setLatLngs :: "LatLng list \<Rightarrow> Polyline \<Rightarrow> Polyline" where
  "setLatLngs pts pl = pl\<lparr> latlngs := pts \<rparr>"

text \<open>
  \<open>Array.prototype.slice(start)\<close>: a negative start counts from the end, and a start
  before the first element is the first element.
\<close>

definition slice :: "int \<Rightarrow> 'a list \<Rightarrow> 'a list" where
  "slice start xs =
     drop (nat (if start < 0 then max (int (length xs) + start) 0 else start)) xs"

subsection \<open>State of the component\<close>

text \<open>
  The references and state variables of \<open>MapComponent\<close>. \<open>mapRef\<close> tells whether the
  container element is attached; \<open>lastId\<close> is the library's stamp counter.

  \<open>memoHistory\<close> is the \<open>locationHistory\<close> that the callback \<open>shouldRefitMap\<close> has
  captured: the callback is made by \<open>useCallback\<close> with the dependency list
  \<open>[locationHistory.length]\<close>, so it is the history of the render in which the length
  last changed. Before the first render there is no callback; the empty history stands
  for it, since a history of another length replaces it and the only history of length
  0 is the empty one.

  \<open>effectDeps\<close> holds the dependencies of the update effect at its last run: the driver
  and customer coordinates and the length of the history; \<open>None\<close> before its first run.
\<close>

type_synonym Deps = "real \<times> real \<times> real \<times> real \<times> nat"

record State =
  mapRef :: bool
  mapInstanceRef :: "LMap option"
  driverMarkerRef :: "Marker option"
  customerMarkerRef :: "Marker option"
  userMarkerRef :: "Marker option"
  pathRef :: "Polyline option"
  mapReady :: bool
  userLocation :: "Location option"
  isInitialized :: bool
  lastId :: nat
  memoHistory :: "Location list"
  effectDeps :: "Deps option"

text \<open>The component as it is mounted: every reference empty, the container attached.\<close>

definition initialState :: State where
  "initialState =
     \<lparr> mapRef = True, mapInstanceRef = None, driverMarkerRef = None,
       customerMarkerRef = None, userMarkerRef = None, pathRef = None, mapReady = False,
       userLocation = None, isInitialized = False, lastId = 0, memoHistory = [],
       effectDeps = None \<rparr>"

subsection \<open>fitMapToPoints and shouldRefitMap\<close>

definition allPoints ::
  "Location list \<Rightarrow> Location \<Rightarrow> CustomerLocation \<Rightarrow> Location option \<Rightarrow> LatLng list" where
  "allPoints history driver customer user =
     [latLngOf driver, latLngOf customer] @ map latLngOf history @
     (case user of None \<Rightarrow> [] | Some u \<Rightarrow> [latLngOf u])"

definition fitMapToPoints ::
  "LMap option \<Rightarrow> Location list \<Rightarrow> Location \<Rightarrow> CustomerLocation \<Rightarrow> Location option
     \<Rightarrow> error + LMap option" where
  "fitMapToPoints mo history driver customer user =
     (case mo of
        None \<Rightarrow> Inr None
      | Some m \<Rightarrow>
          if length (allPoints history driver customer user) > 1 then
            (case fitBounds (map_option (pad (1 / 10))
                     (latLngBounds (allPoints history driver customer user)))
                   True (1 / 2) 18 (20, 20) m of
               Inl e \<Rightarrow> Inl e
             | Inr m' \<Rightarrow> Inr (Some m'))
          else Inr (Some (setView (latLngOf driver) 15 (Some (True, 1 / 2)) m)))"

text \<open>
  \<open>getBounds\<close> is the library's query for the bounds the map shows now. They depend on
  the viewport, the size of the container and the user's panning, so the query is a
  parameter of the functions that use it.

  \<open>shouldRefitMap\<close> is a callback without arguments. The history it tests is the one it
  has captured, \<open>memoHistory\<close>, not the history of the props of the current render.
\<close>

definition shouldRefitMap :: "(LMap \<Rightarrow> LatLngBounds) \<Rightarrow> State \<Rightarrow> bool" where
  "shouldRefitMap getBounds s =
     (case mapInstanceRef s of
        None \<Rightarrow> False
      | Some m \<Rightarrow>
          if length (memoHistory s) < 2 then False
          else
            (let currentBounds = getBounds m;
                 newPoints = slice (- 3) (memoHistory s)
             in list_ex (\<lambda>point. \<not> contains currentBounds (lat point, lng point)) newPoints))"

subsection \<open>The initialization effect and its cleanup\<close>

text \<open>
  The effect returns at once when the container is missing or the component is
  initialized. Otherwise it creates the map centred between driver and customer, the tile
  layer, the controls, the driver and customer markers, the user marker when a user
  location is known, the path when the history has more than one point, and fits the map
  to all points. The emoji of the popup texts are left out.
\<close>

definition customerPopup :: "CustomerLocation \<Rightarrow> string" where
  "customerPopup c = ''Delivery Address<br><strong>'' @ address c @ ''</strong>''"

definition newPath :: "nat \<Rightarrow> LatLng list \<Rightarrow> Polyline" where
  "newPath i pathCoords =
     \<lparr> polyline_id = i, latlngs = pathCoords, color = ''blue'', weight = 3,
       opacity = 7 / 10 \<rparr>"

definition initialize :: "MapComponentProps \<Rightarrow> State \<Rightarrow> error + State" where
  "initialize p s =
     (if \<not> mapRef s \<or> isInitialized s then Inr s
      else
        let centerLat = (lat (driverLocation p) + lat (customerLocation p)) / 2;
            centerLng = (lng (driverLocation p) + lng (customerLocation p)) / 2;
            map0 = setView (centerLat, centerLng) 13 None (L_map False True);
            tiles = Suc (lastId s);
            map1 = addControl (ScaleControl ''bottomleft'')
                     (addControl (ZoomControl ''topright'') (addLayer tiles map0));
            driverMarker =
              \<lparr> marker_id = Suc tiles, marker_latlng = latLngOf (driverLocation p),
                icon_className = ''driver-marker'', zIndexOffset = 1000,
                popup = Some ''Driver Location'' \<rparr>;
            map2 = addLayer (marker_id driverMarker) map1;
            customerMarker =
              \<lparr> marker_id = Suc (Suc tiles), marker_latlng = latLngOf (customerLocation p),
                icon_className = ''customer-marker'', zIndexOffset = 999,
                popup = Some (customerPopup (customerLocation p)) \<rparr>;
            map3 = addLayer (marker_id customerMarker) map2;
            s3 = s\<lparr> driverMarkerRef := Some driverMarker,
                     customerMarkerRef := Some customerMarker,
                     lastId := Suc (Suc tiles) \<rparr>;
            (map4, s4) =
              (case userLocation s of
                 None \<Rightarrow> (map3, s3)
               | Some u \<Rightarrow>
                   let userMarker =
                         \<lparr> marker_id = Suc (lastId s3), marker_latlng = latLngOf u,
                           icon_className = ''user-marker'', zIndexOffset = 998,
                           popup = Some ''Your Location'' \<rparr>
                   in (addLayer (marker_id userMarker) map3,
                       s3\<lparr> userMarkerRef := Some userMarker, lastId := Suc (lastId s3) \<rparr>));
            (map5, s5) =
              (if length (locationHistory p) > 1 then
                 let path = newPath (Suc (lastId s4)) (map latLngOf (locationHistory p))
                 in (addLayer (polyline_id path) map4,
                     s4\<lparr> pathRef := Some path, lastId := Suc (lastId s4) \<rparr>)
               else (map4, s4))
        in case fitMapToPoints (Some map5) (locationHistory p) (driverLocation p)
                  (customerLocation p) (userLocation s) of
             Inl e \<Rightarrow> Inl e
           | Inr mo \<Rightarrow>
               Inr (s5\<lparr> mapInstanceRef := mo, mapReady := True, isInitialized := True \<rparr>))"

text \<open>
  The cleanup removes the map and clears the map reference and both flags. It leaves the
  overlay references as they are.
\<close>

definition dispose :: "State \<Rightarrow> State" where
  "dispose s = s\<lparr> mapInstanceRef := None, mapReady := False, isInitialized := False \<rparr>"

subsection \<open>The update effect\<close>

text \<open>
  \<open>applySnapshot\<close> is the body of the update effect, run with the props of the current
  render. It returns at once without a map instance or before initialization. Otherwise
  it moves the markers that exist, updates or creates the path when the history has
  more than one point, and refits the map when the callback \<open>shouldRefitMap\<close> says so.
  When the body is run is decided by \<open>render\<close> below.
\<close>

definition applySnapshot ::
  "(LMap \<Rightarrow> LatLngBounds) \<Rightarrow> MapComponentProps \<Rightarrow> State \<Rightarrow> error + State" where
  "applySnapshot getBounds p s =
     (case mapInstanceRef s of
        None \<Rightarrow> Inr s
      | Some m \<Rightarrow>
          if \<not> isInitialized s then Inr s
          else
            let s1 = s\<lparr> driverMarkerRef :=
                         map_option (setLatLng (latLngOf (driverLocation p)))
                           (driverMarkerRef s) \<rparr>;
                s2 = s1\<lparr> customerMarkerRef :=
                          map_option
                            (\<lambda>mk. setPopupContent (customerPopup (customerLocation p))
                                   (setLatLng (latLngOf (customerLocation p)) mk))
                            (customerMarkerRef s1) \<rparr>;
                s3 = (case userLocation s2 of
                        None \<Rightarrow> s2
                      | Some u \<Rightarrow>
                          s2\<lparr> userMarkerRef :=
                                map_option (setLatLng (latLngOf u)) (userMarkerRef s2) \<rparr>);
                s4 = (if length (locationHistory p) > 1 then
                        let pathCoords = map latLngOf (locationHistory p)
                        in (case pathRef s3 of
                              Some pl \<Rightarrow> s3\<lparr> pathRef := Some (setLatLngs pathCoords pl) \<rparr>
                            | None \<Rightarrow>
                                let path = newPath (Suc (lastId s3)) pathCoords
                                in s3\<lparr> pathRef := Some path, lastId := Suc (lastId s3),
                                       mapInstanceRef := Some (addLayer (polyline_id path) m) \<rparr>)
                      else s3)
            in if length (locationHistory p) > 1 then
                 if shouldRefitMap getBounds s4 then
                   (case fitMapToPoints (mapInstanceRef s4) (locationHistory p)
                           (driverLocation p) (customerLocation p) (userLocation s4) of
                      Inl e \<Rightarrow> Inl e
                    | Inr mo \<Rightarrow> Inr (s4\<lparr> mapInstanceRef := mo \<rparr>))
                 else Inr s4
               else Inr s4)"

subsection \<open>Mounting and rendering\<close>

text \<open>
  The dependency list of the update effect:
  \<open>[driverLocation.lat, driverLocation.lng, customerLocation.lat, customerLocation.lng,
  locationHistory.length]\<close>.
\<close>

definition deps :: "MapComponentProps \<Rightarrow> Deps" where
  "deps p =
     (lat (driverLocation p), lng (driverLocation p), lat (customerLocation p),
      lng (customerLocation p), length (locationHistory p))"

text \<open>
  \<open>useCallback\<close> in a render with the props \<open>p\<close>: the callback of the last render is
  kept when the length of the history is the same, and made anew from the history of
  \<open>p\<close> otherwise.
\<close>

definition renderCallback :: "MapComponentProps \<Rightarrow> State \<Rightarrow> State" where
  "renderCallback p s =
     (if length (locationHistory p) = length (memoHistory s) then s
      else s\<lparr> memoHistory := locationHistory p \<rparr>)"

text \<open>
  A render of the mounted component with the props \<open>p\<close>: the callback is renewed or
  kept, and the update effect runs if its dependencies differ from those of its last
  run, which then become the dependencies of \<open>p\<close>. A thrown error ends the render.
\<close>

definition render ::
  "(LMap \<Rightarrow> LatLngBounds) \<Rightarrow> MapComponentProps \<Rightarrow> State \<Rightarrow> error + State" where
  "render getBounds p s =
     (let s0 = renderCallback p s
      in if effectDeps s0 = Some (deps p) then Inr s0
         else
           (case applySnapshot getBounds p s0 of
              Inl e \<Rightarrow> Inl e
            | Inr s1 \<Rightarrow> Inr (s1\<lparr> effectDeps := Some (deps p) \<rparr>)))"


text \<open>
  Mounting the component with the props \<open>p\<close>: the first render makes the callback from
  the history of \<open>p\<close>; then the initialization effect runs, and the update effect has
  its first run. In that render \<open>isInitialized\<close> is still false, so the first run of the
  update effect returns at once; its dependencies are recorded. The render that follows
  the setting of the two flags has the same props and runs no effect.
\<close>

definition mount :: "MapComponentProps \<Rightarrow> State \<Rightarrow> error + State" where
  "mount p s =
     (case initialize p (s\<lparr> memoHistory := locationHistory p \<rparr>) of
        Inl e \<Rightarrow> Inl e
      | Inr s1 \<Rightarrow> Inr (s1\<lparr> effectDeps := Some (deps p) \<rparr>))"

subsection \<open>The buttons of the map\<close>

definition handleFitToPoints :: "MapComponentProps \<Rightarrow> State \<Rightarrow> error + State" where
  "handleFitToPoints p s =
     (case mapInstanceRef s of
        None \<Rightarrow> Inr s
      | Some m \<Rightarrow>
          (case fitMapToPoints (Some m) (locationHistory p) (driverLocation p)
                  (customerLocation p) (userLocation s) of
             Inl e \<Rightarrow> Inl e
           | Inr mo \<Rightarrow> Inr (s\<lparr> mapInstanceRef := mo \<rparr>)))"

definition handleCenterOnDriver :: "MapComponentProps \<Rightarrow> State \<Rightarrow> State" where
  "handleCenterOnDriver p s =
     s\<lparr> mapInstanceRef :=
          map_option (setView (latLngOf (driverLocation p)) 16 (Some (True, 1 / 2)))
            (mapInstanceRef s) \<rparr>"

definition handleCenterOnCustomer :: "MapComponentProps \<Rightarrow> State \<Rightarrow> State" where
  "handleCenterOnCustomer p s =
     s\<lparr> mapInstanceRef :=
          map_option (setView (latLngOf (customerLocation p)) 16 (Some (True, 1 / 2)))
            (mapInstanceRef s) \<rparr>"

definition handleCenterOnUser :: "State \<Rightarrow> State" where
  "handleCenterOnUser s =
     (case (mapInstanceRef s, userLocation s) of
        (Some m, Some u) \<Rightarrow>
          s\<lparr> mapInstanceRef := Some (setView (latLngOf u) 16 (Some (True, 1 / 2)) m) \<rparr>
      | _ \<Rightarrow> s)"

text \<open>
  The coordinate invariant of the specification: latitude in \<open>[-90, 90]\<close>, longitude in
  \<open>[-180, 180]\<close>. The source has no such check; the definition follows the
  specification's words.
\<close>

definition spec_valid_coordinate :: "'a Location_scheme \<Rightarrow> bool" where
  "spec_valid_coordinate loc \<longleftrightarrow>
     - 90 \<le> lat loc \<and> lat loc \<le> 90 \<and> - 180 \<le> lng loc \<and> lng loc \<le> 180"

definition spec_valid_snapshot :: "MapComponentProps \<Rightarrow> State \<Rightarrow> bool" where
  "spec_valid_snapshot p s \<longleftrightarrow>
     spec_valid_coordinate (driverLocation p) \<and>
     spec_valid_coordinate (customerLocation p) \<and>
     list_all spec_valid_coordinate (locationHistory p) \<and>
     (case userLocation s of None \<Rightarrow> True | Some u \<Rightarrow> spec_valid_coordinate u)"

subsection \<open>The page: fetching and the history panel\<close>

text \<open>
  The page keeps the last driver and customer locations and the history of driver
  locations, each entry with the time it was fetched. The fields of the page state carry
  the prefix \<open>page_\<close> and those of the fetched data the prefix \<open>data_\<close>, since the props
  of the map component have the same names.
\<close>

record Coordinates =
  latitude :: real
  longitude :: real

record CustomerCoordinates = Coordinates +
  data_address :: string

record HelloFreshData =
  data_driverLocation :: "Coordinates option"
  data_customerLocation :: "CustomerCoordinates option"

text \<open>
  What a fetch can come to: the request fails with a message, or a response arrives with
  its \<open>ok\<close> flag, its status and its body; a body that is not JSON makes \<open>json()\<close>
  throw with a message (\<open>Inl\<close>).
\<close>

datatype FetchResult =
    NetworkFailure string
  | Response bool nat "string + HelloFreshData"

record HistoryEntry = Location +
  timestamp :: nat

text \<open>
  The error shown by the page: the message of a thrown error, the HTTP status, or the
  missing locations.
\<close>

datatype PageError = Thrown string | HttpError nat | LocationNotFound

record PageState =
  page_driverLocation :: "Location option"
  page_customerLocation :: "CustomerLocation option"
  page_locationHistory :: "HistoryEntry list"
  isLoading :: bool
  page_error :: "PageError option"

definition pageInitialState :: PageState where
  "pageInitialState =
     \<lparr> page_driverLocation = None, page_customerLocation = None,
       page_locationHistory = [], isLoading = True, page_error = None \<rparr>"

text \<open>
  The \<open>try\<close> block of \<open>fetchHelloFreshData\<close> at time \<open>now\<close>: a response with both
  locations sets them and appends the driver location to the history; everything else
  throws.
\<close>

definition tryFetch :: "nat \<Rightarrow> FetchResult \<Rightarrow> PageState \<Rightarrow> PageError + PageState" where
  "tryFetch now r st =
     (case r of
        NetworkFailure msg \<Rightarrow> Inl (Thrown msg)
      | Response ok status body \<Rightarrow>
          if \<not> ok then Inl (HttpError status)
          else
            (case body of
               Inl msg \<Rightarrow> Inl (Thrown msg)
             | Inr data \<Rightarrow>
                 (case (data_driverLocation data, data_customerLocation data) of
                    (Some d, Some c) \<Rightarrow>
                      let newDriverLocation = \<lparr> lat = latitude d, lng = longitude d \<rparr>;
                          newCustomerLocation =
                            \<lparr> lat = latitude c, lng = longitude c, address = data_address c \<rparr>
                      in Inr (st\<lparr> page_driverLocation := Some newDriverLocation,
                                   page_customerLocation := Some newCustomerLocation,
                                   page_locationHistory :=
                                     page_locationHistory st @
                                     [\<lparr> lat = lat newDriverLocation,
                                        lng = lng newDriverLocation, timestamp = now \<rparr>] \<rparr>)
                  | _ \<Rightarrow> Inl LocationNotFound)))"

text \<open>One run of \<open>fetchHelloFreshData\<close>, with its \<open>catch\<close> and \<open>finally\<close> blocks.\<close>

definition fetchHelloFreshData :: "nat \<Rightarrow> FetchResult \<Rightarrow> PageState \<Rightarrow> PageState" where
  "fetchHelloFreshData now r st =
     (let st0 = st\<lparr> isLoading := True, page_error := None \<rparr>;
          st1 = (case tryFetch now r st0 of
                   Inr st' \<Rightarrow> st'
                 | Inl err \<Rightarrow> st0\<lparr> page_error := Some err \<rparr>)
      in st1\<lparr> isLoading := False \<rparr>)"

text \<open>A fetch is successful when the response is ok and carries both locations.\<close>

definition successful :: "FetchResult \<Rightarrow> bool" where
  "successful r \<longleftrightarrow>
     (case r of
        Response ok status (Inr data) \<Rightarrow>
          ok \<and> data_driverLocation data \<noteq> None \<and> data_customerLocation data \<noteq> None
      | _ \<Rightarrow> False)"

text \<open>Fetches one after the other, each with its time and its result.\<close>

fun fetches :: "(nat \<times> FetchResult) list \<Rightarrow> PageState \<Rightarrow> PageState" where
  "fetches [] st = st"
| "fetches ((now, r) # rs) st = fetches rs (fetchHelloFreshData now r st)"

text \<open>The entries of the history panel: \<open>locationHistory.slice(-10).reverse()\<close>.\<close>

definition historyPanel :: "PageState \<Rightarrow> HistoryEntry list" where
  "historyPanel st = rev (slice (- 10) (page_locationHistory st))"

text \<open>The history the page hands to the map component.\<close>

definition mapHistory :: "PageState \<Rightarrow> Location list" where
  "mapHistory st = map (\<lambda>loc. \<lparr> lat = lat loc, lng = lng loc \<rparr>) (page_locationHistory st)"

subsection \<open>Concrete snapshots and states\<close>

text \<open>
  The first scenario of the specification: driver at \<open>(49.28, -123.12)\<close>, customer at
  \<open>(49.30, -123.10)\<close>, no history, no user location; \<open>stateA\<close> is the state the
  initialization effect leaves from it. \<open>viewBox\<close> is a region around both points,
  \<open>edgePoint\<close> its north-east corner and \<open>farPoint\<close> a point outside of it.
\<close>

definition scenarioA :: MapComponentProps where
  "scenarioA =
     \<lparr> driverLocation = \<lparr> lat = 4928 / 100, lng = - 12312 / 100 \<rparr>,
       customerLocation = \<lparr> lat = 4930 / 100, lng = - 12310 / 100, address = ''1 Main St'' \<rparr>,
       locationHistory = [] \<rparr>"

definition stateA :: State where
  "stateA =
     \<lparr> mapRef = True,
       mapInstanceRef =
         Some \<lparr> zoomControl = False, attributionControl = True,
                viewCalls =
                  [SetView (4929 / 100, - 12311 / 100) 13 None,
                   FitBounds \<lparr> southWest = (49278 / 1000, - 123122 / 1000),
                               northEast = (49302 / 1000, - 123098 / 1000) \<rparr>
                     True (1 / 2) 18 (20, 20)],
                layers = [1, 2, 3],
                controls = [ZoomControl ''topright'', ScaleControl ''bottomleft''] \<rparr>,
       driverMarkerRef =
         Some \<lparr> marker_id = 2, marker_latlng = (4928 / 100, - 12312 / 100),
                icon_className = ''driver-marker'', zIndexOffset = 1000,
                popup = Some ''Driver Location'' \<rparr>,
       customerMarkerRef =
         Some \<lparr> marker_id = 3, marker_latlng = (4930 / 100, - 12310 / 100),
                icon_className = ''customer-marker'', zIndexOffset = 999,
                popup = Some ''Delivery Address<br><strong>1 Main St</strong>'' \<rparr>,
       userMarkerRef = None, pathRef = None, mapReady = True, userLocation = None,
       isInitialized = True, lastId = 3, memoHistory = [], effectDeps = None \<rparr>"

definition viewBox :: LatLngBounds where
  "viewBox = \<lparr> southWest = (4927 / 100, - 12313 / 100), northEast = (4931 / 100, - 12309 / 100) \<rparr>"

definition farPoint :: Location where
  "farPoint = \<lparr> lat = 4940 / 100, lng = - 123 \<rparr>"

definition edgePoint :: Location where
  "edgePoint = \<lparr> lat = 4931 / 100, lng = - 12309 / 100 \<rparr>"

text \<open>
  \<open>badSnapshot\<close> is the first scenario with the driver at latitude 200; \<open>snapshotB\<close>
  is a later snapshot of the first scenario, the driver moved and two points of history.
\<close>

definition badSnapshot :: MapComponentProps where
  "badSnapshot = scenarioA\<lparr> driverLocation := \<lparr> lat = 200, lng = - 12312 / 100 \<rparr> \<rparr>"

definition snapshotB :: MapComponentProps where
  "snapshotB =
     \<lparr> driverLocation = \<lparr> lat = 4929 / 100, lng = - 12311 / 100 \<rparr>,
       customerLocation = \<lparr> lat = 4930 / 100, lng = - 12310 / 100, address = ''1 Main St'' \<rparr>,
       locationHistory = [\<lparr> lat = 4928 / 100, lng = - 12312 / 100 \<rparr>,
                          \<lparr> lat = 4929 / 100, lng = - 12311 / 100 \<rparr>] \<rparr>"


definition snapshotThree :: MapComponentProps where
  "snapshotThree = scenarioA\<lparr> locationHistory := [edgePoint, edgePoint, farPoint] \<rparr>"

definition stateUser :: State where
  "stateUser = initialState\<lparr> userLocation := Some \<lparr> lat = 50, lng = - 120 \<rparr>, lastId := 7 \<rparr>"

text \<open>
  A page state with eleven entries of history, fetched at the times 0 to 10, and a
  response with both locations.
\<close>

definition pageEleven :: PageState where
  "pageEleven =
     pageInitialState
       \<lparr> page_locationHistory :=
           map (\<lambda>n. \<lparr> lat = 49, lng = - 123, timestamp = n \<rparr>) [0, 1, 2, 3, 4, 5, 6, 7, 8, 9, 10] \<rparr>"

definition goodResponse :: FetchResult where
  "goodResponse =
     Response True 200
       (Inr \<lparr> data_driverLocation = Some \<lparr> latitude = 4928 / 100, longitude = - 12312 / 100 \<rparr>,
              data_customerLocation =
                Some \<lparr> latitude = 4930 / 100, longitude = - 12310 / 100,
                       data_address = ''1 Main St'' \<rparr> \<rparr>)"

text \<open>
  \<open>mountedA\<close> is the component mounted with the first scenario: \<open>stateA\<close> with the
  dependencies of the update effect recorded. \<open>snapshotEdges\<close> is the first scenario
  with the history \<open>[edgePoint, edgePoint]\<close> and \<open>mountedEdges\<close> the component mounted
  with it. \<open>snapshotFarSame\<close> differs from \<open>snapshotEdges\<close> in the second point of the
  history only, which is \<open>farPoint\<close>; \<open>snapshotFarMoved\<close> has the driver moved as well.
  \<open>snapshotFarOnly\<close> has the single point \<open>farPoint\<close> as its history, \<open>snapshotOldFar\<close>
  has it as the oldest of four points. \<open>snapshotBadHistory\<close> differs from
  \<open>snapshotEdges\<close> in the second point of the history only, which has latitude 200.
  \<open>snapshotB2\<close> differs from \<open>snapshotB\<close> in the points of the history only.
\<close>

definition mountedA :: State where
  "mountedA =
     stateA\<lparr> effectDeps := Some (4928 / 100, - 12312 / 100, 4930 / 100, - 12310 / 100, 0) \<rparr>"



definition snapshotFarMoved :: MapComponentProps where
  "snapshotFarMoved =
     \<lparr> driverLocation = \<lparr> lat = 4929 / 100, lng = - 12311 / 100 \<rparr>,
       customerLocation = \<lparr> lat = 4930 / 100, lng = - 12310 / 100, address = ''1 Main St'' \<rparr>,
       locationHistory = [edgePoint, farPoint] \<rparr>"

definition mountedEdges :: State where
  "mountedEdges =
     \<lparr> mapRef = True,
       mapInstanceRef =
         Some \<lparr> zoomControl = False, attributionControl = True,
                viewCalls =
                  [SetView (4929 / 100, - 12311 / 100) 13 None,
                   FitBounds \<lparr> southWest = (49277 / 1000, - 123123 / 1000),
                               northEast = (49313 / 1000, - 123087 / 1000) \<rparr>
                     True (1 / 2) 18 (20, 20)],
                layers = [1, 2, 3, 4],
                controls = [ZoomControl ''topright'', ScaleControl ''bottomleft''] \<rparr>,
       driverMarkerRef =
         Some \<lparr> marker_id = 2, marker_latlng = (4928 / 100, - 12312 / 100),
                icon_className = ''driver-marker'', zIndexOffset = 1000,
                popup = Some ''Driver Location'' \<rparr>,
       customerMarkerRef =
         Some \<lparr> marker_id = 3, marker_latlng = (4930 / 100, - 12310 / 100),
                icon_className = ''customer-marker'', zIndexOffset = 999,
                popup = Some ''Delivery Address<br><strong>1 Main St</strong>'' \<rparr>,
       userMarkerRef = None,
       pathRef =
         Some \<lparr> polyline_id = 4,
                latlngs = [(4931 / 100, - 12309 / 100), (4931 / 100, - 12309 / 100)],
                color = ''blue'', weight = 3, opacity = 7 / 10 \<rparr>,
       mapReady = True, userLocation = None, isInitialized = True, lastId = 4,
       memoHistory = [edgePoint, edgePoint],
       effectDeps = Some (4928 / 100, - 12312 / 100, 4930 / 100, - 12310 / 100, 2) \<rparr>"
definition snapshotFarOnly :: MapComponentProps where
  "snapshotFarOnly = scenarioA\<lparr> locationHistory := [farPoint] \<rparr>"

definition snapshotOldFar :: MapComponentProps where
  "snapshotOldFar = scenarioA\<lparr> locationHistory := [farPoint, edgePoint, edgePoint, edgePoint] \<rparr>"
definition snapshotBadHistory :: MapComponentProps where
  "snapshotBadHistory = scenarioA\<lparr> locationHistory := [edgePoint, \<lparr> lat = 200, lng = 0 \<rparr>] \<rparr>"

section \<open>Properties\<close>

subsection \<open>Auxiliary facts\<close>

lemma initialize_scenarioA: "initialize scenarioA initialState = Inr stateA"
  by (simp add: initialize_def scenarioA_def initialState_def stateA_def Let_def
      fitMapToPoints_def fitBounds_def latLngBounds_def allPoints_def pad_def latLngOf_def
      setView_def L_map_def addLayer_def addControl_def customerPopup_def extendBounds_def)

lemma mount_scenarioA: "mount scenarioA initialState = Inr mountedA"
proof -
  have "initialState\<lparr> memoHistory := locationHistory scenarioA \<rparr> = initialState"
    by (simp add: initialState_def scenarioA_def)
  then have "mount scenarioA initialState =
      Inr (stateA\<lparr> effectDeps := Some (deps scenarioA) \<rparr>)"
    by (simp add: mount_def initialize_scenarioA)
  then show ?thesis
    by (simp add: mountedA_def deps_def scenarioA_def)
qed


lemma slice_neg: "0 < n \<Longrightarrow> slice (- int n) xs = drop (length xs - n) xs"
  by (auto simp: slice_def max_def nat_diff_distrib' not_le
      intro!: arg_cong[where f="\<lambda>k. drop k xs"])

lemma slice_3: "slice (- 3) xs = drop (length xs - 3) xs"
  using slice_neg [of 3 xs] by simp

lemma slice_10: "slice (- 10) xs = drop (length xs - 10) xs"
  using slice_neg [of 10 xs] by simp

lemma contains_extendBounds: "contains b pt \<Longrightarrow> contains (extendBounds b q) pt"
  by (auto simp: contains_def extendBounds_def)

lemma contains_extendBounds_self: "contains (extendBounds b q) q"
  by (simp add: contains_def extendBounds_def)

lemma contains_foldl_extendBounds:
  "contains b pt \<or> pt \<in> set pts \<Longrightarrow> contains (foldl extendBounds b pts) pt"
proof (induction pts arbitrary: b)
  case Nil
  then show ?case by simp
next
  case (Cons q pts)
  from Cons.prems have "contains (extendBounds b q) pt \<or> pt \<in> set pts"
    by (auto intro: contains_extendBounds contains_extendBounds_self)
  then show ?case using Cons.IH by simp
qed

lemma latLngBounds_contains:
  assumes "latLngBounds pts = Some b" and "pt \<in> set pts"
  shows "contains b pt"
proof (cases pts)
  case Nil
  with assms show ?thesis by simp
next
  case (Cons q rest)
  have "contains \<lparr> southWest = q, northEast = q \<rparr> q"
    by (simp add: contains_def)
  with assms Cons have "contains (foldl extendBounds \<lparr> southWest = q, northEast = q \<rparr> rest) pt"
    by (intro contains_foldl_extendBounds) auto
  with assms Cons show ?thesis by (simp add: latLngBounds_def)
qed

lemma contains_pad: "contains b pt \<Longrightarrow> 0 \<le> r \<Longrightarrow> contains (pad r b) pt"
proof -
  assume c: "contains b pt" and r: "0 \<le> r"
  have "0 \<le> \<bar>fst (southWest b) - fst (northEast b)\<bar> * r"
    and "0 \<le> \<bar>snd (southWest b) - snd (northEast b)\<bar> * r"
    using r by simp_all
  with c show ?thesis
    by (simp add: contains_def pad_def Let_def)
qed

lemma fitMapToPoints_Some:
  "\<exists>b. latLngBounds (allPoints h d c u) = Some b \<and>
     fitMapToPoints (Some m) h d c u =
       Inr (Some (m\<lparr> viewCalls :=
                       viewCalls m @ [FitBounds (pad (1 / 10) b) True (1 / 2) 18 (20, 20)] \<rparr>))"
  by (auto simp: fitMapToPoints_def fitBounds_def latLngBounds_def allPoints_def)

lemma fitMapToPoints_eq:
  "fitMapToPoints (Some m) h d c u =
     Inr (Some (m\<lparr> viewCalls := viewCalls m @
        [FitBounds (pad (1 / 10) (the (latLngBounds (allPoints h d c u)))) True (1 / 2) 18 (20, 20)] \<rparr>))"
  using fitMapToPoints_Some [of h d c u m] by auto

lemma polyline_id_newPath: "polyline_id (newPath i pts) = i"
  by (simp add: newPath_def)

lemma latlngs_newPath: "latlngs (newPath i pts) = pts"
  by (simp add: newPath_def)

lemma initialize_noop: "\<not> mapRef s \<or> isInitialized s \<Longrightarrow> initialize p s = Inr s"
  by (simp add: initialize_def)

lemma initialize_fresh:
  assumes "mapRef s" and "\<not> isInitialized s"
  shows "\<exists>s1 m1 b. initialize p s = Inr s1 \<and> mapInstanceRef s1 = Some m1 \<and>
           isInitialized s1 \<and> mapReady s1 \<and> mapRef s1 \<and> userLocation s1 = userLocation s \<and>
           memoHistory s1 = memoHistory s \<and> effectDeps s1 = effectDeps s \<and>
           viewCalls m1 =
             [SetView ((lat (driverLocation p) + lat (customerLocation p)) / 2,
                       (lng (driverLocation p) + lng (customerLocation p)) / 2) 13 None,
              FitBounds b True (1 / 2) 18 (20, 20)] \<and>
           driverMarkerRef s1 =
             Some \<lparr> marker_id = lastId s + 2, marker_latlng = latLngOf (driverLocation p),
                    icon_className = ''driver-marker'', zIndexOffset = 1000,
                    popup = Some ''Driver Location'' \<rparr> \<and>
           customerMarkerRef s1 =
             Some \<lparr> marker_id = lastId s + 3, marker_latlng = latLngOf (customerLocation p),
                    icon_className = ''customer-marker'', zIndexOffset = 999,
                    popup = Some (customerPopup (customerLocation p)) \<rparr> \<and>
           (case userLocation s of
              None \<Rightarrow> userMarkerRef s1 = userMarkerRef s
            | Some u \<Rightarrow> map_option marker_latlng (userMarkerRef s1) = Some (latLngOf u)) \<and>
           (if 1 < length (locationHistory p)
            then pathRef s1 = Some (newPath (lastId s1) (map latLngOf (locationHistory p))) \<and>
                 lastId s1 \<in> set (layers m1)
            else pathRef s1 = pathRef s)"
  using assms
  by (auto simp: initialize_def Let_def fitMapToPoints_eq setView_def L_map_def addLayer_def
      addControl_def polyline_id_newPath split: option.splits)

lemma applySnapshot_noop:
  "mapInstanceRef s = None \<or> \<not> isInitialized s \<Longrightarrow> applySnapshot gb p s = Inr s"
  by (auto simp: applySnapshot_def split: option.splits)

lemma applySnapshot_live:
  assumes "mapInstanceRef s = Some m" and "isInitialized s"
  shows "\<exists>s' m'. applySnapshot gb p s = Inr s' \<and> isInitialized s' \<and>
           mapInstanceRef s' = Some m' \<and> mapRef s' = mapRef s \<and>
           userLocation s' = userLocation s \<and>
           memoHistory s' = memoHistory s \<and> effectDeps s' = effectDeps s \<and>
           driverMarkerRef s' =
             map_option (setLatLng (latLngOf (driverLocation p))) (driverMarkerRef s) \<and>
           customerMarkerRef s' =
             map_option (\<lambda>mk. setPopupContent (customerPopup (customerLocation p))
                               (setLatLng (latLngOf (customerLocation p)) mk))
               (customerMarkerRef s) \<and>
           userMarkerRef s' =
             (case userLocation s of
                None \<Rightarrow> userMarkerRef s
              | Some u \<Rightarrow> map_option (setLatLng (latLngOf u)) (userMarkerRef s)) \<and>
           pathRef s' =
             (if 1 < length (locationHistory p) then
                (case pathRef s of
                   Some pl \<Rightarrow> Some (setLatLngs (map latLngOf (locationHistory p)) pl)
                 | None \<Rightarrow> Some (newPath (Suc (lastId s)) (map latLngOf (locationHistory p))))
              else pathRef s) \<and>
           lastId s' =
             (if 1 < length (locationHistory p) \<and> pathRef s = None then Suc (lastId s)
              else lastId s) \<and>
           layers m' =
             (if 1 < length (locationHistory p) \<and> pathRef s = None
              then layers m @ [Suc (lastId s)] else layers m)"
  using assms
  by (auto simp: applySnapshot_def Let_def fitMapToPoints_eq addLayer_def polyline_id_newPath
      split: option.splits)

lemma renderCallback_fields:
  "mapInstanceRef (renderCallback p s) = mapInstanceRef s"
  "isInitialized (renderCallback p s) = isInitialized s"
  "mapRef (renderCallback p s) = mapRef s"
  "userLocation (renderCallback p s) = userLocation s"
  "effectDeps (renderCallback p s) = effectDeps s"
  "driverMarkerRef (renderCallback p s) = driverMarkerRef s"
  "customerMarkerRef (renderCallback p s) = customerMarkerRef s"
  "userMarkerRef (renderCallback p s) = userMarkerRef s"
  "pathRef (renderCallback p s) = pathRef s"
  "lastId (renderCallback p s) = lastId s"
  by (simp_all add: renderCallback_def)

lemma renderCallback_memo:
  "memoHistory (renderCallback p s) =
     (if length (locationHistory p) = length (memoHistory s) then memoHistory s
      else locationHistory p)"
  by (simp add: renderCallback_def)

lemma renderCallback_length:
  "length (memoHistory (renderCallback p s)) = length (locationHistory p)"
  by (simp add: renderCallback_def)

lemma render_live:
  assumes "mapInstanceRef s = Some m" and "isInitialized s"
  shows "\<exists>s' m'. render gb p s = Inr s' \<and> isInitialized s' \<and>
           mapInstanceRef s' = Some m' \<and> mapRef s' = mapRef s \<and>
           userLocation s' = userLocation s \<and>
           memoHistory s' = memoHistory (renderCallback p s) \<and>
           effectDeps s' = Some (deps p) \<and>
           (if effectDeps s = Some (deps p) then
              driverMarkerRef s' = driverMarkerRef s \<and>
              customerMarkerRef s' = customerMarkerRef s \<and>
              userMarkerRef s' = userMarkerRef s \<and> pathRef s' = pathRef s \<and>
              lastId s' = lastId s \<and> m' = m
            else
              driverMarkerRef s' =
                map_option (setLatLng (latLngOf (driverLocation p))) (driverMarkerRef s) \<and>
              customerMarkerRef s' =
                map_option (\<lambda>mk. setPopupContent (customerPopup (customerLocation p))
                                  (setLatLng (latLngOf (customerLocation p)) mk))
                  (customerMarkerRef s) \<and>
              userMarkerRef s' =
                (case userLocation s of
                   None \<Rightarrow> userMarkerRef s
                 | Some u \<Rightarrow> map_option (setLatLng (latLngOf u)) (userMarkerRef s)) \<and>
              pathRef s' =
                (if 1 < length (locationHistory p) then
                   (case pathRef s of
                      Some pl \<Rightarrow> Some (setLatLngs (map latLngOf (locationHistory p)) pl)
                    | None \<Rightarrow>
                        Some (newPath (Suc (lastId s)) (map latLngOf (locationHistory p))))
                 else pathRef s) \<and>
              lastId s' =
                (if 1 < length (locationHistory p) \<and> pathRef s = None then Suc (lastId s)
                 else lastId s) \<and>
              layers m' =
                (if 1 < length (locationHistory p) \<and> pathRef s = None
                 then layers m @ [Suc (lastId s)] else layers m))"
proof (cases "effectDeps s = Some (deps p)")
  case True
  then have "render gb p s = Inr (renderCallback p s)"
    by (simp add: render_def Let_def renderCallback_fields)
  with True assms show ?thesis
    by (simp add: renderCallback_fields)
next
  case False
  have m0: "mapInstanceRef (renderCallback p s) = Some m"
    and i0: "isInitialized (renderCallback p s)"
    using assms by (simp_all add: renderCallback_fields)
  from applySnapshot_live [OF m0 i0, of gb p]
  obtain s1 m1 where s1: "applySnapshot gb p (renderCallback p s) = Inr s1"
    and rest: "isInitialized s1" "mapInstanceRef s1 = Some m1" "mapRef s1 = mapRef s"
      "userLocation s1 = userLocation s"
      "memoHistory s1 = memoHistory (renderCallback p s)"
      "driverMarkerRef s1 =
         map_option (setLatLng (latLngOf (driverLocation p))) (driverMarkerRef s)"
      "customerMarkerRef s1 =
         map_option (\<lambda>mk. setPopupContent (customerPopup (customerLocation p))
                           (setLatLng (latLngOf (customerLocation p)) mk))
           (customerMarkerRef s)"
      "userMarkerRef s1 =
         (case userLocation s of
            None \<Rightarrow> userMarkerRef s
          | Some u \<Rightarrow> map_option (setLatLng (latLngOf u)) (userMarkerRef s))"
      "pathRef s1 =
         (if 1 < length (locationHistory p) then
            (case pathRef s of
               Some pl \<Rightarrow> Some (setLatLngs (map latLngOf (locationHistory p)) pl)
             | None \<Rightarrow> Some (newPath (Suc (lastId s)) (map latLngOf (locationHistory p))))
          else pathRef s)"
      "lastId s1 =
         (if 1 < length (locationHistory p) \<and> pathRef s = None then Suc (lastId s)
          else lastId s)"
      "layers m1 =
         (if 1 < length (locationHistory p) \<and> pathRef s = None
          then layers m @ [Suc (lastId s)] else layers m)"
    unfolding renderCallback_fields by blast
  from False s1 have "render gb p s = Inr (s1\<lparr> effectDeps := Some (deps p) \<rparr>)"
    by (simp add: render_def Let_def renderCallback_fields)
  with False rest show ?thesis by simp
qed

lemma mount_fresh:
  assumes "mapRef s" and "\<not> isInitialized s"
  shows "\<exists>s1 m1. mount p s = Inr s1 \<and> mapInstanceRef s1 = Some m1 \<and> isInitialized s1 \<and>
           memoHistory s1 = locationHistory p \<and> effectDeps s1 = Some (deps p) \<and>
           driverMarkerRef s1 =
             Some \<lparr> marker_id = lastId s + 2, marker_latlng = latLngOf (driverLocation p),
                    icon_className = ''driver-marker'', zIndexOffset = 1000,
                    popup = Some ''Driver Location'' \<rparr> \<and>
           (if 1 < length (locationHistory p)
            then pathRef s1 = Some (newPath (lastId s1) (map latLngOf (locationHistory p))) \<and>
                 lastId s1 \<in> set (layers m1)
            else pathRef s1 = pathRef s)"
proof -
  have "mapRef (s\<lparr> memoHistory := locationHistory p \<rparr>)"
    and "\<not> isInitialized (s\<lparr> memoHistory := locationHistory p \<rparr>)"
    using assms by simp_all
  from initialize_fresh [OF this, of p]
  obtain s1 m1 where "initialize p (s\<lparr> memoHistory := locationHistory p \<rparr>) = Inr s1"
    and "mapInstanceRef s1 = Some m1" and "isInitialized s1"
    and "memoHistory s1 = locationHistory p"
    and "driverMarkerRef s1 =
             Some \<lparr> marker_id = lastId s + 2, marker_latlng = latLngOf (driverLocation p),
                    icon_className = ''driver-marker'', zIndexOffset = 1000,
                    popup = Some ''Driver Location'' \<rparr>"
    and "if 1 < length (locationHistory p)
            then pathRef s1 = Some (newPath (lastId s1) (map latLngOf (locationHistory p))) \<and>
                 lastId s1 \<in> set (layers m1)
            else pathRef s1 = pathRef s"
    by auto
  then show ?thesis
    by (auto simp: mount_def)
qed



lemma fetch_history:
  "page_locationHistory (fetchHelloFreshData now r st) =
     (case r of
        Response True status (Inr data) \<Rightarrow>
          (case (data_driverLocation data, data_customerLocation data) of
             (Some d, Some c) \<Rightarrow>
               page_locationHistory st @
               [\<lparr> lat = latitude d, lng = longitude d, timestamp = now \<rparr>]
           | _ \<Rightarrow> page_locationHistory st)
      | _ \<Rightarrow> page_locationHistory st)"
  by (simp add: fetchHelloFreshData_def tryFetch_def Let_def
      split: FetchResult.splits sum.splits option.splits bool.splits)

lemma fetch_successful:
  "successful r \<Longrightarrow>
     \<exists>e. page_locationHistory (fetchHelloFreshData now r st) = page_locationHistory st @ [e] \<and>
         timestamp e = now"
  by (auto simp: fetch_history successful_def
      split: FetchResult.splits sum.splits option.splits bool.splits)

lemma fetch_unsuccessful:
  "\<not> successful r \<Longrightarrow>
     page_locationHistory (fetchHelloFreshData now r st) = page_locationHistory st"
  by (auto simp: fetch_history successful_def
      split: FetchResult.splits sum.splits option.splits bool.splits)

lemma fetches_history:
  "prefix (page_locationHistory st) (page_locationHistory (fetches rs st)) \<and>
   length (page_locationHistory (fetches rs st)) =
     length (page_locationHistory st) + length (filter (\<lambda>(now, r). successful r) rs)"
proof (induction rs arbitrary: st)
  case Nil
  then show ?case by simp
next
  case (Cons a rs)
  obtain now r where a: "a = (now, r)" by (cases a)
  show ?case
  proof (cases "successful r")
    case True
    from fetch_successful [OF this, of now st]
    obtain e where "page_locationHistory (fetchHelloFreshData now r st) =
        page_locationHistory st @ [e]" by blast
    with Cons.IH [of "fetchHelloFreshData now r st"] True a show ?thesis
      by (auto dest: append_prefixD)
  next
    case False
    with Cons.IH [of "fetchHelloFreshData now r st"] a fetch_unsuccessful [OF False, of now st]
    show ?thesis by simp
  qed
qed

lemma historyPanel_take: "historyPanel st = take 10 (rev (page_locationHistory st))"
  by (simp add: historyPanel_def slice_10 take_rev)

subsection \<open>The refit heuristic\<close>

text \<open>
  C1, as stated, fails, in two ways. With the component mounted and a history of the
  single point \<open>farPoint\<close>, the last three points of the history are that point, it lies
  outside the visible bounds, and \<open>shouldRefitMap\<close> returns false. And with the component
  mounted on the history \<open>[edgePoint, edgePoint]\<close>, a render with the driver moved and
  the history \<open>[edgePoint, farPoint]\<close> keeps the callback that has captured the earlier
  history of the same length: \<open>shouldRefitMap\<close> returns false although \<open>farPoint\<close> is
  among the last three points, and the render leaves the view calls of the map as they
  were.
\<close>

theorem shouldRefitMap_counterexample:
  "mapInstanceRef mountedA \<noteq> None \<and> isInitialized mountedA \<and>
   slice (- 3) (locationHistory snapshotFarOnly) = [farPoint] \<and>
   \<not> contains viewBox (lat farPoint, lng farPoint) \<and>
   shouldRefitMap (\<lambda>_. viewBox) (renderCallback snapshotFarOnly mountedA) = False \<and>
   mapInstanceRef mountedEdges \<noteq> None \<and> isInitialized mountedEdges \<and>
   slice (- 3) (locationHistory snapshotFarMoved) = [edgePoint, farPoint] \<and>
   memoHistory (renderCallback snapshotFarMoved mountedEdges) = [edgePoint, edgePoint] \<and>
   shouldRefitMap (\<lambda>_. viewBox) (renderCallback snapshotFarMoved mountedEdges) = False \<and>
   \<not> isl (render (\<lambda>_. viewBox) snapshotFarMoved mountedEdges) \<and>
   map_option viewCalls (mapInstanceRef (projr (render (\<lambda>_. viewBox) snapshotFarMoved mountedEdges))) =
     map_option viewCalls (mapInstanceRef mountedEdges)"
  by (simp add: shouldRefitMap_def renderCallback_def mountedA_def stateA_def
      snapshotFarOnly_def snapshotFarMoved_def scenarioA_def slice_def contains_def
      viewBox_def farPoint_def edgePoint_def mountedEdges_def render_def deps_def
      applySnapshot_def Let_def setLatLng_def setLatLngs_def setPopupContent_def
      customerPopup_def latLngOf_def)

text \<open>
  C1, amended: \<open>shouldRefitMap\<close> tests the history its callback has captured. For a
  component with a map instance whose captured history has at least two points, it
  examines the last three points of that history (all of them when there are fewer) and
  returns true if and only if one of them is not contained in the bounds the map shows,
  which is if and only if it lies strictly beyond an edge; a point on an edge is
  contained. In a render, the captured history is the history of the props when its
  length differs from that of the history captured before, and the history captured
  before otherwise; it always has the length of the history of the props.
\<close>

theorem shouldRefitMap_iff_outside:
  assumes "mapInstanceRef s = Some m" and "2 \<le> length (memoHistory s)"
  shows "slice (- 3) (memoHistory s) = drop (length (memoHistory s) - 3) (memoHistory s) \<and>
         (shouldRefitMap getBounds s \<longleftrightarrow>
           (\<exists>pt \<in> set (drop (length (memoHistory s) - 3) (memoHistory s)).
              \<not> contains (getBounds m) (lat pt, lng pt))) \<and>
         (shouldRefitMap getBounds s \<longleftrightarrow>
           (\<exists>pt \<in> set (drop (length (memoHistory s) - 3) (memoHistory s)).
              lat pt < fst (southWest (getBounds m)) \<or> fst (northEast (getBounds m)) < lat pt \<or>
              lng pt < snd (southWest (getBounds m)) \<or> snd (northEast (getBounds m)) < lng pt)) \<and>
         memoHistory (renderCallback p s) =
           (if length (locationHistory p) = length (memoHistory s) then memoHistory s
            else locationHistory p) \<and>
         length (memoHistory (renderCallback p s)) = length (locationHistory p) \<and>
         mapInstanceRef (renderCallback p s) = Some m"
proof -
  have last3: "slice (- 3) (memoHistory s) = drop (length (memoHistory s) - 3) (memoHistory s)"
    by (rule slice_3)
  have refit: "shouldRefitMap getBounds s \<longleftrightarrow>
      (\<exists>pt \<in> set (drop (length (memoHistory s) - 3) (memoHistory s)).
         \<not> contains (getBounds m) (lat pt, lng pt))"
    using assms by (simp add: shouldRefitMap_def last3 Let_def list_ex_iff)
  have edge: "\<not> contains (getBounds m) (lat pt, lng pt) \<longleftrightarrow>
      lat pt < fst (southWest (getBounds m)) \<or> fst (northEast (getBounds m)) < lat pt \<or>
      lng pt < snd (southWest (getBounds m)) \<or> snd (northEast (getBounds m)) < lng pt"
    for pt :: Location
    by (auto simp: contains_def)
  from last3 refit assms(1) show ?thesis
    by (simp add: edge renderCallback_memo renderCallback_length renderCallback_fields)
qed

text \<open>
  Witness: on the mounted first scenario, a render with the history
  \<open>[edgePoint, edgePoint, farPoint]\<close> captures it and asks for a refit; a render with
  the history \<open>[farPoint, edgePoint, edgePoint, edgePoint]\<close> captures it, the point
  outside is older than the last three, the last three lie on the edge, and no refit is
  asked for.
\<close>

theorem shouldRefitMap_iff_outside_witness:
  "memoHistory (renderCallback snapshotThree mountedA) = [edgePoint, edgePoint, farPoint] \<and>
   shouldRefitMap (\<lambda>_. viewBox) (renderCallback snapshotThree mountedA) \<and>
   memoHistory (renderCallback snapshotOldFar mountedA) =
     [farPoint, edgePoint, edgePoint, edgePoint] \<and>
   \<not> shouldRefitMap (\<lambda>_. viewBox) (renderCallback snapshotOldFar mountedA)"
proof -
  have a: "memoHistory (renderCallback snapshotThree mountedA) = [edgePoint, edgePoint, farPoint]"
    and b: "memoHistory (renderCallback snapshotOldFar mountedA) =
      [farPoint, edgePoint, edgePoint, edgePoint]"
    and ma: "mapInstanceRef (renderCallback snapshotThree mountedA) =
      Some (the (mapInstanceRef mountedA))"
    and mb: "mapInstanceRef (renderCallback snapshotOldFar mountedA) =
      Some (the (mapInstanceRef mountedA))"
    by (simp_all add: renderCallback_def snapshotThree_def snapshotOldFar_def scenarioA_def
        mountedA_def stateA_def)
  have la: "2 \<le> length (memoHistory (renderCallback snapshotThree mountedA))"
    and lb: "2 \<le> length (memoHistory (renderCallback snapshotOldFar mountedA))"
    by (simp_all add: a b)
  from shouldRefitMap_iff_outside [OF ma la, of "\<lambda>_. viewBox" snapshotThree]
    shouldRefitMap_iff_outside [OF mb lb, of "\<lambda>_. viewBox" snapshotOldFar]
  show ?thesis
    unfolding a b
    by (simp add: a b viewBox_def farPoint_def edgePoint_def contains_def)
qed

text \<open>
  C2: whatever the driver, customer and user locations, the state and the visible bounds
  are, in a render whose history has fewer than two points \<open>shouldRefitMap\<close> returns
  false: the callback of the render has captured a history of the same length, and on
  every state whose captured history has that length it returns false.
\<close>

theorem shouldRefitMap_short_history:
  "length (locationHistory p) < 2 \<Longrightarrow>
     length (memoHistory (renderCallback p s)) = length (locationHistory p) \<and>
     shouldRefitMap getBounds (renderCallback p s) = False \<and>
     (\<forall>s'. length (memoHistory s') = length (locationHistory p) \<longrightarrow>
        shouldRefitMap getBounds s' = False)"
  by (simp add: shouldRefitMap_def renderCallback_length split: option.splits)

text \<open>
  Witness: a user location is known, the only point of the history is the user's own far
  away position, outside the visible bounds, and no refit is asked for.
\<close>

theorem shouldRefitMap_short_history_witness:
  "length (locationHistory (scenarioA\<lparr> locationHistory := [\<lparr> lat = 60, lng = 10 \<rparr>] \<rparr>)) < 2 \<and>
   \<not> contains viewBox (60, 10) \<and>
   memoHistory (renderCallback (scenarioA\<lparr> locationHistory := [\<lparr> lat = 60, lng = 10 \<rparr>] \<rparr>)
     (mountedA\<lparr> userLocation := Some \<lparr> lat = 60, lng = 10 \<rparr> \<rparr>)) = [\<lparr> lat = 60, lng = 10 \<rparr>] \<and>
   shouldRefitMap (\<lambda>_. viewBox)
     (renderCallback (scenarioA\<lparr> locationHistory := [\<lparr> lat = 60, lng = 10 \<rparr>] \<rparr>)
        (mountedA\<lparr> userLocation := Some \<lparr> lat = 60, lng = 10 \<rparr> \<rparr>)) = False"
  using shouldRefitMap_short_history
      [of "scenarioA\<lparr> locationHistory := [\<lparr> lat = 60, lng = 10 \<rparr>] \<rparr>"
        "mountedA\<lparr> userLocation := Some \<lparr> lat = 60, lng = 10 \<rparr> \<rparr>" "\<lambda>_. viewBox"]
  by (simp add: contains_def viewBox_def renderCallback_def mountedA_def stateA_def)

subsection \<open>Fitting the map to all points\<close>

text \<open>
  C9: the points collected by \<open>fitMapToPoints\<close> are the driver's, the customer's, those
  of the history and the user's if there is one, in this order, so they always number at
  least two. Their bounds are valid and contain every one of them, the driver's and the
  customer's among them, and so do the bounds padded by a tenth. On a map the function
  always calls \<open>fitBounds\<close> with the padded bounds, animation of half a second, maximal
  zoom 18 and padding \<open>[20, 20]\<close>; it never takes the branch that centres on the driver
  at zoom 15.
\<close>

theorem fitMapToPoints_always_fitBounds:
  "allPoints h d c u =
     (lat d, lng d) # (lat c, lng c) # map (\<lambda>loc. (lat loc, lng loc)) h @
     (case u of None \<Rightarrow> [] | Some x \<Rightarrow> [(lat x, lng x)]) \<and>
   2 \<le> length (allPoints h d c u) \<and>
   (\<exists>b. latLngBounds (allPoints h d c u) = Some b \<and>
      contains (pad (1 / 10) b) (lat d, lng d) \<and> contains (pad (1 / 10) b) (lat c, lng c) \<and>
      (\<forall>pt \<in> set (allPoints h d c u). contains b pt \<and> contains (pad (1 / 10) b) pt) \<and>
      fitMapToPoints (Some m) h d c u =
        Inr (Some (m\<lparr> viewCalls :=
                        viewCalls m @ [FitBounds (pad (1 / 10) b) True (1 / 2) 18 (20, 20)] \<rparr>))) \<and>
   fitMapToPoints (Some m) h d c u \<noteq>
     Inr (Some (setView (latLngOf d) 15 (Some (True, 1 / 2)) m))"
proof -
  have pts: "allPoints h d c u =
     (lat d, lng d) # (lat c, lng c) # map (\<lambda>loc. (lat loc, lng loc)) h @
     (case u of None \<Rightarrow> [] | Some x \<Rightarrow> [(lat x, lng x)])"
    by (simp add: allPoints_def latLngOf_def split: option.splits)
  have len: "2 \<le> length (allPoints h d c u)"
    by (simp add: pts)
  obtain b where b: "latLngBounds (allPoints h d c u) = Some b"
    and fit: "fitMapToPoints (Some m) h d c u =
        Inr (Some (m\<lparr> viewCalls :=
                        viewCalls m @ [FitBounds (pad (1 / 10) b) True (1 / 2) 18 (20, 20)] \<rparr>))"
    using fitMapToPoints_Some by blast
  have inside: "contains b pt \<and> contains (pad (1 / 10) b) pt" if "pt \<in> set (allPoints h d c u)" for pt
    using latLngBounds_contains [OF b that] by (simp add: contains_pad)
  have dr: "(lat d, lng d) \<in> set (allPoints h d c u)"
    and cu: "(lat c, lng c) \<in> set (allPoints h d c u)"
    by (simp_all add: pts)
  have "m\<lparr> viewCalls := viewCalls m @ [FitBounds (pad (1 / 10) b) True (1 / 2) 18 (20, 20)] \<rparr>
          \<noteq> setView (latLngOf d) 15 (Some (True, 1 / 2)) m"
  proof
    assume "m\<lparr> viewCalls := viewCalls m @ [FitBounds (pad (1 / 10) b) True (1 / 2) 18 (20, 20)] \<rparr>
          = setView (latLngOf d) 15 (Some (True, 1 / 2)) m"
    then have "viewCalls (m\<lparr> viewCalls :=
                   viewCalls m @ [FitBounds (pad (1 / 10) b) True (1 / 2) 18 (20, 20)] \<rparr>)
          = viewCalls (setView (latLngOf d) 15 (Some (True, 1 / 2)) m)"
      by simp
    then show False by (simp add: setView_def)
  qed
  with pts len b fit inside dr cu show ?thesis by auto
qed

text \<open>
  Witness: for the first scenario the points are the driver's and the customer's, their
  bounds are the box between them, and the map receives \<open>fitBounds\<close> on that box grown
  by a tenth of its span on each side.
\<close>

theorem fitMapToPoints_always_fitBounds_witness:
  "allPoints [] (driverLocation scenarioA) (customerLocation scenarioA) None =
     [(4928 / 100, - 12312 / 100), (4930 / 100, - 12310 / 100)] \<and>
   latLngBounds (allPoints [] (driverLocation scenarioA) (customerLocation scenarioA) None) =
     Some \<lparr> southWest = (4928 / 100, - 12312 / 100), northEast = (4930 / 100, - 12310 / 100) \<rparr> \<and>
   fitMapToPoints (Some (L_map False True)) [] (driverLocation scenarioA)
       (customerLocation scenarioA) None =
     Inr (Some ((L_map False True)
       \<lparr> viewCalls :=
           [FitBounds \<lparr> southWest = (49278 / 1000, - 123122 / 1000),
                       northEast = (49302 / 1000, - 123098 / 1000) \<rparr>
              True (1 / 2) 18 (20, 20)] \<rparr>))"
proof -
  from fitMapToPoints_always_fitBounds
    [of "[]" "driverLocation scenarioA" "customerLocation scenarioA" None "L_map False True"]
  obtain b where pts: "allPoints [] (driverLocation scenarioA) (customerLocation scenarioA) None =
      [(lat (driverLocation scenarioA), lng (driverLocation scenarioA)),
       (lat (customerLocation scenarioA), lng (customerLocation scenarioA))]"
    and b: "latLngBounds (allPoints [] (driverLocation scenarioA) (customerLocation scenarioA) None)
      = Some b"
    and fit: "fitMapToPoints (Some (L_map False True)) [] (driverLocation scenarioA)
       (customerLocation scenarioA) None =
      Inr (Some ((L_map False True)\<lparr> viewCalls :=
             viewCalls (L_map False True) @
             [FitBounds (pad (1 / 10) b) True (1 / 2) 18 (20, 20)] \<rparr>))"
    by auto
  from b have b_eq: "b =
      \<lparr> southWest = (4928 / 100, - 12312 / 100), northEast = (4930 / 100, - 12310 / 100) \<rparr>"
    unfolding pts by (auto simp: latLngBounds_def extendBounds_def scenarioA_def)
  from pts b fit show ?thesis
    by (simp add: b_eq) (simp add: scenarioA_def pad_def L_map_def)
qed

subsection \<open>Calls outside the initialized state\<close>

text \<open>
  C3, as stated, fails: the update effect run before the initialization effect, and run
  after the cleanup, returns normally with the state it was given; no error is raised.
\<close>

theorem applySnapshot_before_initialize_counterexample:
  "mapInstanceRef initialState = None \<and> \<not> isInitialized initialState \<and>
   applySnapshot (\<lambda>_. viewBox) scenarioA initialState = Inr initialState \<and>
   applySnapshot (\<lambda>_. viewBox) scenarioA (dispose stateA) = Inr (dispose stateA)"
  by (simp add: applySnapshot_def initialState_def dispose_def)

text \<open>
  C3, amended: the update effect run without a map instance or before initialization
  (so before the initialization effect and after the cleanup) raises no error: it
  returns at once and leaves the state unchanged. The same holds after the cleanup for
  the fit button and the three centre buttons.
\<close>

theorem applySnapshot_silent_noop:
  "(mapInstanceRef s = None \<or> \<not> isInitialized s \<longrightarrow> applySnapshot getBounds p s = Inr s) \<and>
   applySnapshot getBounds p (dispose s) = Inr (dispose s) \<and>
   handleFitToPoints p (dispose s) = Inr (dispose s) \<and>
   handleCenterOnDriver p (dispose s) = dispose s \<and>
   handleCenterOnCustomer p (dispose s) = dispose s \<and>
   handleCenterOnUser (dispose s) = dispose s"
  by (simp add: applySnapshot_noop dispose_def handleFitToPoints_def handleCenterOnDriver_def
      handleCenterOnCustomer_def handleCenterOnUser_def)

text \<open>
  Witness: a snapshot with two points of history, handed to the component as mounted and
  to the component after the cleanup, changes neither; the cleanup has cleared the map
  reference and kept the driver marker reference.
\<close>

theorem applySnapshot_silent_noop_witness:
  "applySnapshot (\<lambda>_. viewBox) (scenarioA\<lparr> locationHistory := [edgePoint, farPoint] \<rparr>)
      initialState = Inr initialState \<and>
   applySnapshot (\<lambda>_. viewBox) (scenarioA\<lparr> locationHistory := [edgePoint, farPoint] \<rparr>)
      (dispose stateA) = Inr (dispose stateA) \<and>
   mapInstanceRef (dispose stateA) = None \<and>
   driverMarkerRef (dispose stateA) = driverMarkerRef stateA"
  using applySnapshot_silent_noop
      [of initialState "\<lambda>_. viewBox" "scenarioA\<lparr> locationHistory := [edgePoint, farPoint] \<rparr>"]
    applySnapshot_silent_noop
      [of stateA "\<lambda>_. viewBox" "scenarioA\<lparr> locationHistory := [edgePoint, farPoint] \<rparr>"]
  by (simp add: initialState_def dispose_def)

subsection \<open>Coordinates out of range\<close>

text \<open>
  C4, as stated, fails: on the component mounted with the first scenario, the render
  with the driver at latitude 200 is not rejected; it returns normally and the driver
  marker, before at latitude 49.28, is then at latitude 200.
\<close>

theorem render_latitude_200_counterexample:
  "\<not> spec_valid_coordinate (driverLocation badSnapshot) \<and>
   mount scenarioA initialState = Inr mountedA \<and>
   map_option marker_latlng (driverMarkerRef mountedA) = Some (4928 / 100, - 12312 / 100) \<and>
   \<not> isl (render (\<lambda>_. viewBox) badSnapshot mountedA) \<and>
   map_option marker_latlng
     (driverMarkerRef (projr (render (\<lambda>_. viewBox) badSnapshot mountedA))) =
     Some (200, - 12312 / 100)"
  by (simp add: mount_scenarioA)
    (simp add: spec_valid_coordinate_def badSnapshot_def render_def renderCallback_def
      deps_def applySnapshot_def mountedA_def stateA_def scenarioA_def Let_def setLatLng_def
      latLngOf_def)

text \<open>
  C4, amended: there is no range check. On an initialized component with its driver and
  customer markers, a render with a snapshot that has a coordinate outside latitude
  \<open>[-90, 90]\<close> or longitude \<open>[-180, 180]\<close> raises no error. (Every coordinate of the
  model is a number; a coordinate that is not a number is not covered.) When the snapshot has the
  driver and customer coordinates and the length of the history of the last run of the
  update effect, the effect does not run and the overlays and the map are left as they
  are. Otherwise the snapshot is applied as it is: the driver marker is the same marker
  moved to exactly the driver location given, the customer marker is at exactly the
  customer location given, and with at least two points of history the path has exactly
  the points given.
\<close>

theorem render_no_range_check:
  assumes "mapInstanceRef s = Some m" and "isInitialized s"
    and "driverMarkerRef s = Some dm" and "customerMarkerRef s = Some cm"
    and "\<not> spec_valid_snapshot p s"
  shows "\<exists>s'. render getBounds p s = Inr s' \<and>
           (if effectDeps s = Some (deps p) then
              driverMarkerRef s' = Some dm \<and> customerMarkerRef s' = Some cm \<and>
              userMarkerRef s' = userMarkerRef s \<and> pathRef s' = pathRef s \<and>
              mapInstanceRef s' = Some m
            else
              driverMarkerRef s' =
                Some (dm\<lparr> marker_latlng := (lat (driverLocation p), lng (driverLocation p)) \<rparr>) \<and>
              map_option marker_latlng (customerMarkerRef s') =
                Some (lat (customerLocation p), lng (customerLocation p)) \<and>
              (2 \<le> length (locationHistory p) \<longrightarrow>
                 map_option latlngs (pathRef s') =
                   Some (map (\<lambda>loc. (lat loc, lng loc)) (locationHistory p))))"
proof -
  have l: "latLngOf = (\<lambda>loc::Location. (lat loc, lng loc))"
    by (simp add: fun_eq_iff latLngOf_def)
  from render_live [OF assms(1,2), of getBounds p]
  obtain s' m' where s': "render getBounds p s = Inr s'"
    and m': "mapInstanceRef s' = Some m'"
    and eff: "if effectDeps s = Some (deps p) then
              driverMarkerRef s' = driverMarkerRef s \<and>
              customerMarkerRef s' = customerMarkerRef s \<and>
              userMarkerRef s' = userMarkerRef s \<and> pathRef s' = pathRef s \<and> m' = m
            else
              driverMarkerRef s' =
                map_option (setLatLng (latLngOf (driverLocation p))) (driverMarkerRef s) \<and>
              customerMarkerRef s' =
                map_option (\<lambda>mk. setPopupContent (customerPopup (customerLocation p))
                                  (setLatLng (latLngOf (customerLocation p)) mk))
                  (customerMarkerRef s) \<and>
              pathRef s' =
                (if 1 < length (locationHistory p) then
                   (case pathRef s of
                      Some pl \<Rightarrow> Some (setLatLngs (map latLngOf (locationHistory p)) pl)
                    | None \<Rightarrow>
                        Some (newPath (Suc (lastId s)) (map latLngOf (locationHistory p))))
                 else pathRef s)"
    by (auto split: if_splits)
  show ?thesis
  proof (cases "effectDeps s = Some (deps p)")
    case True
    with s' m' eff assms(3,4) show ?thesis by simp
  next
    case False
    with eff have
      d: "driverMarkerRef s' =
            map_option (setLatLng (latLngOf (driverLocation p))) (driverMarkerRef s)"
      and c: "customerMarkerRef s' =
            map_option (\<lambda>mk. setPopupContent (customerPopup (customerLocation p))
                              (setLatLng (latLngOf (customerLocation p)) mk))
              (customerMarkerRef s)"
      and pth: "pathRef s' =
            (if 1 < length (locationHistory p) then
               (case pathRef s of
                  Some pl \<Rightarrow> Some (setLatLngs (map latLngOf (locationHistory p)) pl)
                | None \<Rightarrow> Some (newPath (Suc (lastId s)) (map latLngOf (locationHistory p))))
             else pathRef s)"
      by simp_all
    have "map_option latlngs (pathRef s') =
        Some (map (\<lambda>loc. (lat loc, lng loc)) (locationHistory p))"
      if "2 \<le> length (locationHistory p)"
      using that pth by (simp add: l setLatLngs_def latlngs_newPath split: option.splits)
    with False s' d c assms(3,4) show ?thesis
      by (simp add: setLatLng_def setPopupContent_def latLngOf_def)
  qed
qed

text \<open>
  Witness: the snapshot with the driver at latitude 200 on the mounted first scenario
  runs the update effect and moves the driver marker to latitude 200; the snapshot with
  latitude 200 in the history only, on the component mounted with a history of the same
  length, does not run the effect, and the path and the driver marker stay.
\<close>

theorem render_no_range_check_witness:
  "\<not> spec_valid_snapshot badSnapshot mountedA \<and>
   effectDeps mountedA \<noteq> Some (deps badSnapshot) \<and>
   (\<exists>s'. render (\<lambda>_. viewBox) badSnapshot mountedA = Inr s' \<and>
      map_option marker_latlng (driverMarkerRef s') = Some (200, - 12312 / 100) \<and>
      map_option marker_latlng (customerMarkerRef s') = Some (4930 / 100, - 12310 / 100)) \<and>
   \<not> spec_valid_snapshot snapshotBadHistory mountedEdges \<and>
   effectDeps mountedEdges = Some (deps snapshotBadHistory) \<and>
   (\<exists>s'. render (\<lambda>_. viewBox) snapshotBadHistory mountedEdges = Inr s' \<and>
      pathRef s' = pathRef mountedEdges \<and> driverMarkerRef s' = driverMarkerRef mountedEdges)"
proof -
  have bad: "\<not> spec_valid_snapshot badSnapshot mountedA"
    and bad2: "\<not> spec_valid_snapshot snapshotBadHistory mountedEdges"
    by (simp_all add: spec_valid_snapshot_def spec_valid_coordinate_def badSnapshot_def
        snapshotBadHistory_def scenarioA_def edgePoint_def)
  have run: "effectDeps mountedA \<noteq> Some (deps badSnapshot)"
    and skip: "effectDeps mountedEdges = Some (deps snapshotBadHistory)"
    by (simp_all add: mountedA_def mountedEdges_def deps_def badSnapshot_def
        snapshotBadHistory_def scenarioA_def)
  have m: "mapInstanceRef mountedA = Some (the (mapInstanceRef mountedA))"
    and i: "isInitialized mountedA"
    and d: "driverMarkerRef mountedA = Some (the (driverMarkerRef mountedA))"
    and c: "customerMarkerRef mountedA = Some (the (customerMarkerRef mountedA))"
    by (simp_all add: mountedA_def stateA_def)
  have m2: "mapInstanceRef mountedEdges = Some (the (mapInstanceRef mountedEdges))"
    and i2: "isInitialized mountedEdges"
    and d2: "driverMarkerRef mountedEdges = Some (the (driverMarkerRef mountedEdges))"
    and c2: "customerMarkerRef mountedEdges = Some (the (customerMarkerRef mountedEdges))"
    by (simp_all add: mountedEdges_def)
  from render_no_range_check [OF m i d c bad, of "\<lambda>_. viewBox"] run
  obtain s' where "render (\<lambda>_. viewBox) badSnapshot mountedA = Inr s'"
    and "driverMarkerRef s' =
           Some ((the (driverMarkerRef mountedA))
             \<lparr> marker_latlng := (lat (driverLocation badSnapshot), lng (driverLocation badSnapshot)) \<rparr>)"
    and "map_option marker_latlng (customerMarkerRef s') =
           Some (lat (customerLocation badSnapshot), lng (customerLocation badSnapshot))"
    by auto
  then have first: "\<exists>s'. render (\<lambda>_. viewBox) badSnapshot mountedA = Inr s' \<and>
      map_option marker_latlng (driverMarkerRef s') = Some (200, - 12312 / 100) \<and>
      map_option marker_latlng (customerMarkerRef s') = Some (4930 / 100, - 12310 / 100)"
    by (simp add: badSnapshot_def scenarioA_def)
  from render_no_range_check [OF m2 i2 d2 c2 bad2, of "\<lambda>_. viewBox"] skip
  obtain s'' where "render (\<lambda>_. viewBox) snapshotBadHistory mountedEdges = Inr s''"
    and "driverMarkerRef s'' = Some (the (driverMarkerRef mountedEdges))"
    and "pathRef s'' = pathRef mountedEdges"
    by auto
  with d2 have second: "\<exists>s'. render (\<lambda>_. viewBox) snapshotBadHistory mountedEdges = Inr s' \<and>
      pathRef s' = pathRef mountedEdges \<and> driverMarkerRef s' = driverMarkerRef mountedEdges"
    by simp
  from bad bad2 run skip first second show ?thesis by simp
qed

subsection \<open>Moving the driver overlay\<close>

text \<open>
  C5: on a mounted component not yet initialized, the initialization effect with a
  snapshot \<open>S1\<close> followed by the update effect with a snapshot \<open>S2\<close> both return
  normally, and the driver marker reference then holds the marker the initialization
  created, with the same identity and options, at exactly the driver location of \<open>S2\<close>.
  The update constructs no layer object other than, possibly, the path. The same holds
  for mounting with \<open>S1\<close> followed by a render with \<open>S2\<close>, whether the render runs the
  update effect or not.
\<close>

theorem driver_overlay_moved:
  assumes "mapRef s" and "\<not> isInitialized s"
  shows "\<exists>s1 s2 dm.
           initialize S1 s = Inr s1 \<and> driverMarkerRef s1 = Some dm \<and>
           applySnapshot getBounds S2 s1 = Inr s2 \<and>
           driverMarkerRef s2 =
             Some (dm\<lparr> marker_latlng := (lat (driverLocation S2), lng (driverLocation S2)) \<rparr>) \<and>
           lastId s2 =
             (if 1 < length (locationHistory S2) \<and> pathRef s1 = None then Suc (lastId s1)
              else lastId s1) \<and>
           (\<exists>t1 t2. mount S1 s = Inr t1 \<and> driverMarkerRef t1 = Some dm \<and>
              render getBounds S2 t1 = Inr t2 \<and>
              driverMarkerRef t2 =
                Some (dm\<lparr> marker_latlng :=
                          (lat (driverLocation S2), lng (driverLocation S2)) \<rparr>))"
proof -
  let ?dm = "\<lparr> marker_id = lastId s + 2, marker_latlng = latLngOf (driverLocation S1),
                icon_className = ''driver-marker'', zIndexOffset = 1000,
                popup = Some ''Driver Location'' \<rparr>"
  from initialize_fresh [OF assms, of S1]
  obtain s1 m1 where s1: "initialize S1 s = Inr s1" and m1: "mapInstanceRef s1 = Some m1"
    and i1: "isInitialized s1" and d1: "driverMarkerRef s1 = Some ?dm"
    by blast
  from applySnapshot_live [OF m1 i1, of getBounds S2]
  obtain s2 where s2: "applySnapshot getBounds S2 s1 = Inr s2"
    and d2: "driverMarkerRef s2 =
           map_option (setLatLng (latLngOf (driverLocation S2))) (driverMarkerRef s1)"
    and l2: "lastId s2 =
           (if 1 < length (locationHistory S2) \<and> pathRef s1 = None then Suc (lastId s1)
            else lastId s1)"
    by blast
  from mount_fresh [OF assms, of S1]
  obtain t1 n1 where t1: "mount S1 s = Inr t1" and n1: "mapInstanceRef t1 = Some n1"
    and j1: "isInitialized t1" and e1: "effectDeps t1 = Some (deps S1)"
    and dt1: "driverMarkerRef t1 = Some ?dm"
    by blast
  from render_live [OF n1 j1, of getBounds S2]
  obtain t2 where t2: "render getBounds S2 t1 = Inr t2"
    and eff: "if effectDeps t1 = Some (deps S2) then driverMarkerRef t2 = driverMarkerRef t1
              else driverMarkerRef t2 =
                map_option (setLatLng (latLngOf (driverLocation S2))) (driverMarkerRef t1)"
    by (auto split: if_splits)
  have dt2: "driverMarkerRef t2 =
      Some (?dm\<lparr> marker_latlng := (lat (driverLocation S2), lng (driverLocation S2)) \<rparr>)"
  proof (cases "effectDeps t1 = Some (deps S2)")
    case True
    with e1 have "lat (driverLocation S1) = lat (driverLocation S2)"
      and "lng (driverLocation S1) = lng (driverLocation S2)"
      by (simp_all add: deps_def)
    with True eff dt1 show ?thesis by (simp add: latLngOf_def)
  next
    case False
    with eff dt1 show ?thesis by (simp add: setLatLng_def latLngOf_def)
  qed
  from s1 d1 s2 d2 l2 t1 dt1 t2 dt2 show ?thesis
    by (simp add: setLatLng_def latLngOf_def)
qed

text \<open>
  Witness: the first scenario, then \<open>snapshotB\<close>: the driver marker keeps the stamp 2
  and is at \<open>(49.29, -123.11)\<close>; the one object created is the path, with stamp 4.
\<close>

theorem driver_overlay_moved_witness:
  "mapRef initialState \<and> \<not> isInitialized initialState \<and>
   (\<exists>s2. applySnapshot (\<lambda>_. viewBox) snapshotB stateA = Inr s2 \<and>
      driverMarkerRef s2 =
        Some \<lparr> marker_id = 2, marker_latlng = (4929 / 100, - 12311 / 100),
               icon_className = ''driver-marker'', zIndexOffset = 1000,
               popup = Some ''Driver Location'' \<rparr> \<and>
      lastId s2 = 4) \<and>
   (\<exists>t2. render (\<lambda>_. viewBox) snapshotB mountedA = Inr t2 \<and>
      driverMarkerRef t2 =
        Some \<lparr> marker_id = 2, marker_latlng = (4929 / 100, - 12311 / 100),
               icon_className = ''driver-marker'', zIndexOffset = 1000,
               popup = Some ''Driver Location'' \<rparr>)"
proof -
  have pre: "mapRef initialState" "\<not> isInitialized initialState"
    by (simp_all add: initialState_def)
  from driver_overlay_moved [OF pre, of scenarioA "\<lambda>_. viewBox" snapshotB]
  obtain s2 dm t2 where dm: "driverMarkerRef stateA = Some dm"
    and s2: "applySnapshot (\<lambda>_. viewBox) snapshotB stateA = Inr s2"
    and d2: "driverMarkerRef s2 =
      Some (dm\<lparr> marker_latlng := (lat (driverLocation snapshotB), lng (driverLocation snapshotB)) \<rparr>)"
    and l2: "lastId s2 =
      (if 1 < length (locationHistory snapshotB) \<and> pathRef stateA = None then Suc (lastId stateA)
       else lastId stateA)"
    and t2: "render (\<lambda>_. viewBox) snapshotB mountedA = Inr t2"
    and e2: "driverMarkerRef t2 =
      Some (dm\<lparr> marker_latlng := (lat (driverLocation snapshotB), lng (driverLocation snapshotB)) \<rparr>)"
    unfolding initialize_scenarioA mount_scenarioA by auto
  from dm have dm_eq: "dm = \<lparr> marker_id = 2, marker_latlng = (4928 / 100, - 12312 / 100),
                icon_className = ''driver-marker'', zIndexOffset = 1000,
                popup = Some ''Driver Location'' \<rparr>"
    by (simp add: stateA_def)
  from l2 have "lastId s2 = 4"
    by (simp add: snapshotB_def stateA_def)
  with pre s2 d2 t2 e2 show ?thesis
    by (simp add: dm_eq snapshotB_def)
qed

subsection \<open>Initializing twice\<close>

text \<open>
  C6: on an initialized component the initialization effect returns at once, without
  error and with the state unchanged; and from every state, running the effect a second
  time (with the same or another snapshot) returns without error the state the first
  run has left.
\<close>

theorem initialize_idempotent:
  "(isInitialized s \<longrightarrow> initialize p s = Inr s) \<and>
   (\<exists>s1. initialize p s = Inr s1 \<and> initialize p' s1 = Inr s1)"
proof (cases "mapRef s \<and> \<not> isInitialized s")
  case True
  then have "mapRef s" and "\<not> isInitialized s" by simp_all
  from initialize_fresh [OF this, of p]
  obtain s1 where "initialize p s = Inr s1" and "isInitialized s1" by blast
  then show ?thesis using True by (auto simp: initialize_noop)
next
  case False
  then have "initialize p s = Inr s" and "initialize p' s = Inr s"
    by (auto simp: initialize_noop)
  then show ?thesis by simp
qed

text \<open>
  Witness: the first scenario initializes the mounted component to \<open>stateA\<close>, and the
  effect run again on \<open>stateA\<close> with another snapshot leaves \<open>stateA\<close>.
\<close>

theorem initialize_idempotent_witness:
  "isInitialized stateA \<and> initialize snapshotB stateA = Inr stateA \<and>
   initialize scenarioA initialState = Inr stateA"
  using initialize_idempotent [of initialState scenarioA snapshotB]
    initialize_idempotent [of stateA snapshotB snapshotB]
  by (simp add: initialize_scenarioA) (simp add: stateA_def)

subsection \<open>The path overlay\<close>




subsection \<open>The starting viewport\<close>

text \<open>
  C8: on a mounted component that is not initialized, the initialization effect gives
  the new map exactly two view calls: first \<open>setView\<close> at zoom 13 on the arithmetic
  midpoint of the driver and customer coordinates, then the fit to all points. For the
  driver at \<open>(49.28, -123.12)\<close>, the customer at \<open>(49.30, -123.10)\<close>, an empty history
  and no user location, it leaves the driver marker and the customer marker at these
  positions, no user marker and no path; the layers of the map are the tile layer and
  the two markers; and the first view call centres on \<open>(49.29, -123.11)\<close>.
\<close>

theorem initialize_center_midpoint:
  "(mapRef s \<and> \<not> isInitialized s \<longrightarrow>
      (\<exists>s1 m1 fit. initialize p s = Inr s1 \<and> mapInstanceRef s1 = Some m1 \<and>
         viewCalls m1 =
           [SetView ((lat (driverLocation p) + lat (customerLocation p)) / 2,
                     (lng (driverLocation p) + lng (customerLocation p)) / 2) 13 None,
            fit])) \<and>
   lat (driverLocation scenarioA) = 4928 / 100 \<and> lng (driverLocation scenarioA) = - 12312 / 100 \<and>
   lat (customerLocation scenarioA) = 4930 / 100 \<and>
   lng (customerLocation scenarioA) = - 12310 / 100 \<and>
   locationHistory scenarioA = [] \<and> userLocation initialState = None \<and>
   initialize scenarioA initialState = Inr stateA \<and>
   map_option marker_latlng (driverMarkerRef stateA) = Some (4928 / 100, - 12312 / 100) \<and>
   map_option marker_latlng (customerMarkerRef stateA) = Some (4930 / 100, - 12310 / 100) \<and>
   userMarkerRef stateA = None \<and> pathRef stateA = None \<and>
   map_option marker_id (driverMarkerRef stateA) = Some 2 \<and>
   map_option marker_id (customerMarkerRef stateA) = Some 3 \<and>
   map_option layers (mapInstanceRef stateA) = Some [1, 2, 3] \<and>
   map_option (\<lambda>m. hd (viewCalls m)) (mapInstanceRef stateA) =
     Some (SetView (4929 / 100, - 12311 / 100) 13 None)"
proof -
  have "\<exists>s1 m1 fit. initialize p s = Inr s1 \<and> mapInstanceRef s1 = Some m1 \<and>
         viewCalls m1 =
           [SetView ((lat (driverLocation p) + lat (customerLocation p)) / 2,
                     (lng (driverLocation p) + lng (customerLocation p)) / 2) 13 None,
            fit]"
    if "mapRef s" and "\<not> isInitialized s"
    using initialize_fresh [OF that, of p] by blast
  moreover have "initialize scenarioA initialState = Inr stateA"
    by (rule initialize_scenarioA)
  ultimately show ?thesis
    by (simp add: scenarioA_def initialState_def stateA_def)
qed

text \<open>
  Witness: \<open>snapshotB\<close> on \<open>stateUser\<close>: the first view call centres on
  \<open>(49.295, -123.105)\<close>.
\<close>

theorem initialize_center_midpoint_witness:
  "mapRef stateUser \<and> \<not> isInitialized stateUser \<and>
   (\<exists>s1 m1 fit. initialize snapshotB stateUser = Inr s1 \<and> mapInstanceRef s1 = Some m1 \<and>
      viewCalls m1 = [SetView (49295 / 1000, - 123105 / 1000) 13 None, fit])"
  using initialize_center_midpoint [of stateUser snapshotB]
  by (simp add: stateUser_def initialState_def snapshotB_def)

subsection \<open>The history of the page\<close>

text \<open>
  C10: a fetch whose response is ok and carries both locations appends exactly one entry
  to the end of the history: the driver location with the time of the fetch. Every
  other fetch leaves the history as it is. So over any sequence of fetches the history
  at the start is a prefix of the history at the end, and its length grows by the
  number of successful fetches, with no bound. The history panel shows the entries
  newest first, cut after the tenth: at most ten.
\<close>

theorem history_grows_panel_bounded:
  "(\<forall>status data d c.
      r = Response True status (Inr data) \<and> data_driverLocation data = Some d \<and>
      data_customerLocation data = Some c \<longrightarrow>
      page_locationHistory (fetchHelloFreshData now r st) =
        page_locationHistory st @ [\<lparr> lat = latitude d, lng = longitude d, timestamp = now \<rparr>]) \<and>
   (successful r \<longrightarrow>
      length (page_locationHistory (fetchHelloFreshData now r st)) =
        Suc (length (page_locationHistory st))) \<and>
   (\<not> successful r \<longrightarrow>
      page_locationHistory (fetchHelloFreshData now r st) = page_locationHistory st) \<and>
   prefix (page_locationHistory st) (page_locationHistory (fetches rs st)) \<and>
   length (page_locationHistory (fetches rs st)) =
     length (page_locationHistory st) + length (filter (\<lambda>(now, r). successful r) rs) \<and>
   historyPanel st = take 10 (rev (page_locationHistory st)) \<and>
   length (historyPanel st) \<le> 10"
proof -
  have "length (page_locationHistory (fetchHelloFreshData now r st)) =
        Suc (length (page_locationHistory st))" if "successful r"
    using fetch_successful [OF that, of now st] by auto
  then show ?thesis
    using fetches_history [of st rs] fetch_unsuccessful [of r now st]
    by (auto simp: fetch_history historyPanel_take)
qed

text \<open>
  Witness: with eleven entries in the history, a successful fetch at time 11 makes them
  twelve, the new one last; the panel shows the entries of the times 11 down to 2; a
  response with status 500 leaves the history alone.
\<close>

theorem history_grows_panel_bounded_witness:
  "successful goodResponse \<and> \<not> successful (Response False 500 (Inl ''Internal Server Error'')) \<and>
   map timestamp (page_locationHistory (fetchHelloFreshData 11 goodResponse pageEleven)) =
     [0, 1, 2, 3, 4, 5, 6, 7, 8, 9, 10, 11] \<and>
   last (page_locationHistory (fetchHelloFreshData 11 goodResponse pageEleven)) =
     \<lparr> lat = 4928 / 100, lng = - 12312 / 100, timestamp = 11 \<rparr> \<and>
   map timestamp (historyPanel (fetchHelloFreshData 11 goodResponse pageEleven)) =
     [11, 10, 9, 8, 7, 6, 5, 4, 3, 2] \<and>
   page_locationHistory
     (fetchHelloFreshData 11 (Response False 500 (Inl ''Internal Server Error'')) pageEleven) =
     page_locationHistory pageEleven"
proof -
  have good: "successful goodResponse"
    and bad: "\<not> successful (Response False 500 (Inl ''Internal Server Error''))"
    by (simp_all add: successful_def goodResponse_def)
  have hist: "page_locationHistory (fetchHelloFreshData 11 goodResponse pageEleven) =
      page_locationHistory pageEleven @ [\<lparr> lat = 4928 / 100, lng = - 12312 / 100, timestamp = 11 \<rparr>]"
    using history_grows_panel_bounded [of goodResponse 11 pageEleven "[]"]
    by (simp add: goodResponse_def)
  have panel: "historyPanel (fetchHelloFreshData 11 goodResponse pageEleven) =
      take 10 (rev (page_locationHistory (fetchHelloFreshData 11 goodResponse pageEleven)))"
    using history_grows_panel_bounded
      [of goodResponse 11 "fetchHelloFreshData 11 goodResponse pageEleven" "[]"]
    by simp
  have same: "page_locationHistory
     (fetchHelloFreshData 11 (Response False 500 (Inl ''Internal Server Error'')) pageEleven) =
     page_locationHistory pageEleven"
    using history_grows_panel_bounded
      [of "Response False 500 (Inl ''Internal Server Error'')" 11 pageEleven "[]"] bad
    by simp
  show ?thesis
    using good bad same by (simp add: panel hist) (simp add: pageEleven_def)
qed


end
